theory Spec2Isabelle
  imports Complex_Main "HOL-Library.Multiset"
begin

section \<open>JavaScript primitives used by the front end\<close>






text \<open>
  \<open>String.prototype.slice(0, end)\<close>: a negative \<open>end\<close> counts from the end of the
  string, and the bound is clamped to the string.
\<close>

definition slice0 :: "string \<Rightarrow> int \<Rightarrow> string" where
  "slice0 s e =
     (let len = int (length s);
          final = (if e < 0 then max (len + e) 0 else min e len)
      in take (nat final) s)"


text \<open>\<open>Math.round\<close>: the nearest integer, a tie going up.\<close>

definition Math_round :: "real \<Rightarrow> int" where
  "Math_round x = \<lfloor>x + 1 / 2\<rfloor>"



section \<open>lib/utils\<close>


definition truncateText :: "string \<Rightarrow> int \<Rightarrow> string" where
  "truncateText text maxLength =
     (if int (length text) \<le> maxLength then text
      else slice0 text (maxLength - 3) @ ''...'')"

definition getStatusColor :: "string \<Rightarrow> string" where
  "getStatusColor status =
     (if status = ''completed'' then ''text-green-600 bg-green-100''
      else if status = ''processing'' then ''text-blue-600 bg-blue-100''
      else if status = ''pending'' then ''text-yellow-600 bg-yellow-100''
      else if status = ''failed'' then ''text-red-600 bg-red-100''
      else ''text-gray-600 bg-gray-100'')"

definition getFlexIntensityLabel :: "int \<Rightarrow> string" where
  "getFlexIntensityLabel intensity =
     (if intensity = 1 then ''Subtle''
      else if intensity = 2 then ''Low''
      else if intensity = 3 then ''Medium''
      else if intensity = 4 then ''High''
      else if intensity = 5 then ''Maximum''
      else ''Unknown'')"


section \<open>lib/types\<close>

datatype BeatType = Intro | Build | Pre_drop | Drop | Sustain | Outro

record BeatTimestamp =
  ms :: int
  type' :: BeatType
  intensity :: int
  duration_ms :: int
  notes' :: "string option"
  recommended_clip_type :: "string option"

text \<open>
  \<open>Partial<BeatTimestamp>\<close>: every key may be absent (\<open>None\<close>). A present key of
  an optional field may itself hold \<open>undefined\<close>, hence the nested option.
\<close>

record BeatTimestamp_Partial =
  ms_p :: "int option"
  type_p :: "BeatType option"
  intensity_p :: "int option"
  duration_ms_p :: "int option"
  notes_p :: "string option option"
  recommended_clip_type_p :: "string option option"

text \<open>
  \<open>type GenerationStatus = "pending" | "processing" | "completed" | "failed"\<close>: a
  union of four string literals, with the string each value is at run time.
\<close>

datatype GenerationStatus = Pending | Processing | Completed | Failed

fun GenerationStatus_string :: "GenerationStatus \<Rightarrow> string" where
  "GenerationStatus_string Pending = ''pending''"
| "GenerationStatus_string Processing = ''processing''"
| "GenerationStatus_string Completed = ''completed''"
| "GenerationStatus_string Failed = ''failed''"

record ClipSequenceItem =
  clip_id :: string
  beat_segment :: string
  start_ms :: int
  end_ms :: int
  reasoning :: "string option"

text \<open>
  \<open>interface Generation\<close>. The two \<open>Record<string, unknown>\<close> fields are association
  lists over a type parameter for the unknown values.
\<close>

record 'u Generation =
  id' :: string
  creator_id :: string
  audio_id :: string
  clip_sequence :: "ClipSequenceItem list"
  caption :: "string option"
  caption_metadata :: "(string \<times> 'u) list"
  ai_reasoning :: "(string \<times> 'u) list"
  output_path :: "string option"
  status :: GenerationStatus
  error_message :: "string option"
  created_at :: string
  completed_at :: "string option"

text \<open>An element of \<open>caption_options\<close> in the reply to a caption regeneration.\<close>

record CaptionOption =
  caption_o :: string
  hook_type :: string
  length_o :: int


section \<open>lib/api: the caption regeneration request\<close>

text \<open>
  What \<open>ApiClient.regenerateCaption\<close> hands to \<open>this.client.post\<close>: the path and the
  JSON body, an object with the one key \<open>keep_clips\<close>.
\<close>

record post_request =
  url :: string
  data :: "(string \<times> bool) list"

text \<open>
  \<open>async regenerateCaption(id: string, keepClips: boolean = true)\<close>. The second
  argument is \<open>None\<close> when the caller omits it, and the default parameter then applies.
\<close>

definition regenerateCaption :: "string \<Rightarrow> bool option \<Rightarrow> post_request" where
  "regenerateCaption i keepClips_arg =
     (let keepClips = (case keepClips_arg of None \<Rightarrow> True | Some b \<Rightarrow> b)
      in \<lparr>url = ''/generate/'' @ i @ ''/regenerate-caption'',
          data = [(''keep_clips'', keepClips)]\<rparr>)"


section \<open>app/generate/page: the generate page\<close>




text \<open>
  \<open>refetchInterval\<close> of the detail query, on the query's current data (\<open>None\<close> for
  \<open>undefined\<close> or \<open>null\<close>). The result \<open>None\<close> is \<open>false\<close>: no further refetch.
\<close>

definition generationDetail_refetchInterval :: "'u Generation option \<Rightarrow> nat option" where
  "generationDetail_refetchInterval query_data =
     (case query_data of
        None \<Rightarrow> None
      | Some d \<Rightarrow> if status d = Pending \<or> status d = Processing then Some 2000 else None)"




definition regenerateCaptionMutation_mutationFn :: "string \<Rightarrow> post_request" where
  "regenerateCaptionMutation_mutationFn i = regenerateCaption i None"



text \<open>The request issued by the card's regenerate button.\<close>

definition regenerateButton_onClick :: "'u Generation \<Rightarrow> post_request" where
  "regenerateButton_onClick d = regenerateCaptionMutation_mutationFn (id' d)"



section \<open>app/audio/[id]/beats/page: the beat editor\<close>

record BeatEditor_state =
  isPlaying :: bool
  currentTime :: real
  timestamps :: "BeatTimestamp list"
  selectedType :: BeatType
  selectedIntensity :: int

text \<open>
  \<open>addTimestamp\<close>. \<open>find\<close> yields an object, which is truthy, exactly when some
  element passes the test. The comparator \<open>(a, b) => a.ms - b.ms\<close> orders by \<open>ms\<close>, and
  \<open>Array.prototype.sort\<close> is stable, as \<open>sort_key\<close> is. The handler tests the list of
  the render it belongs to and updates the list current at the update; with one click
  handled per render these are the same list, the \<open>timestamps\<close> of the state.
\<close>

definition addTimestamp :: "BeatEditor_state \<Rightarrow> BeatEditor_state" where
  "addTimestamp st =
     (let ms0 = Math_round (currentTime st);
          existing = find (\<lambda>t. \<bar>ms t - ms0\<bar> < 100) (timestamps st)
      in if existing \<noteq> None then st
         else
           let newTimestamp =
                 \<lparr>ms = ms0, type' = selectedType st, intensity = selectedIntensity st,
                  duration_ms = 3000, notes' = Some [],
                  recommended_clip_type = Some ''lifestyle''\<rparr>
           in st\<lparr>timestamps := sort_key ms (timestamps st @ [newTimestamp])\<rparr>)"

text \<open>\<open>prev.filter((_, i) => i !== index)\<close>\<close>

definition removeTimestamp :: "int \<Rightarrow> BeatTimestamp list \<Rightarrow> BeatTimestamp list" where
  "removeTimestamp index prev =
     map snd (filter (\<lambda>(i, _). int i \<noteq> index) (enumerate 0 prev))"

text \<open>The object spread \<open>{ ...ts, ...updates }\<close>: a key present in \<open>updates\<close> wins.\<close>

definition spread :: "BeatTimestamp \<Rightarrow> BeatTimestamp_Partial \<Rightarrow> BeatTimestamp" where
  "spread ts updates =
     \<lparr>ms = (case ms_p updates of None \<Rightarrow> ms ts | Some v \<Rightarrow> v),
      type' = (case type_p updates of None \<Rightarrow> type' ts | Some v \<Rightarrow> v),
      intensity = (case intensity_p updates of None \<Rightarrow> intensity ts | Some v \<Rightarrow> v),
      duration_ms = (case duration_ms_p updates of None \<Rightarrow> duration_ms ts | Some v \<Rightarrow> v),
      notes' = (case notes_p updates of None \<Rightarrow> notes' ts | Some v \<Rightarrow> v),
      recommended_clip_type =
        (case recommended_clip_type_p updates of
           None \<Rightarrow> recommended_clip_type ts | Some v \<Rightarrow> v)\<rparr>"

text \<open>\<open>prev.map((ts, i) => (i === index ? { ...ts, ...updates } : ts))\<close>\<close>

definition updateTimestamp ::
  "int \<Rightarrow> BeatTimestamp_Partial \<Rightarrow> BeatTimestamp list \<Rightarrow> BeatTimestamp list" where
  "updateTimestamp index updates prev =
     map (\<lambda>(i, ts). if int i = index then spread ts updates else ts) (enumerate 0 prev)"

text \<open>A timestamp list in ascending \<open>ms\<close> order.\<close>

definition sorted_by_ms :: "BeatTimestamp list \<Rightarrow> bool" where
  "sorted_by_ms xs = sorted (map ms xs)"


section \<open>Reading a formatted duration back\<close>






section \<open>The Generation Job state machine\<close>

text \<open>
  Modelled from the spec: the Job Orchestrator and the state machine of a Generation
  Job (sections 3, 4.2 and 4.3) run in the backend, of which the front end only holds
  the client. A job record has the fields of \<open>Generation\<close>. The Orchestrator moves a
  job from \<open>pending\<close> to \<open>processing\<close> when it begins the Selector; from
  \<open>processing\<close> to \<open>completed\<close> with \<open>clip_sequence\<close>, \<open>output_path\<close>, \<open>caption\<close>
  and \<open>completed_at\<close> set; from \<open>processing\<close> to \<open>failed\<close> with \<open>error_message\<close>
  and \<open>completed_at\<close> set and a possibly partial \<open>clip_sequence\<close>; and it updates
  the caption of a \<open>completed\<close> job in place. No other step exists.
\<close>

datatype orchestrator_step =
    Begin_processing
  | Complete "ClipSequenceItem list" string string string
  | Fail "ClipSequenceItem list" string string
  | Update_caption string

text \<open>
  Modelled from the spec: one step of the Orchestrator on a job (sections 4.2 and 4.3);
  \<open>None\<close> when the step is not allowed in the job's state.
\<close>

fun orchestrate :: "'u Generation \<Rightarrow> orchestrator_step \<Rightarrow> 'u Generation option" where
  "orchestrate j Begin_processing =
     (if status j = Pending then Some (j\<lparr>status := Processing\<rparr>) else None)"
| "orchestrate j (Complete cs path c t) =
     (if status j = Processing
      then Some (j\<lparr>clip_sequence := cs, caption := Some c, output_path := Some path,
                   status := Completed, completed_at := Some t\<rparr>)
      else None)"
| "orchestrate j (Fail cs e t) =
     (if status j = Processing
      then Some (j\<lparr>clip_sequence := cs, status := Failed, error_message := Some e,
                   completed_at := Some t\<rparr>)
      else None)"
| "orchestrate j (Update_caption c) =
     (if status j = Completed then Some (j\<lparr>caption := Some c\<rparr>) else None)"

text \<open>
  Modelled from the spec: the sequence of states a job passes through under a
  sequence of Orchestrator steps, the job itself first; \<open>None\<close> when some step is not
  allowed.
\<close>

fun job_history :: "'u Generation \<Rightarrow> orchestrator_step list \<Rightarrow> 'u Generation list option" where
  "job_history j [] = Some [j]"
| "job_history j (s # ss) =
     (case orchestrate j s of
        None \<Rightarrow> None
      | Some j' \<Rightarrow> map_option ((#) j) (job_history j' ss))"


section \<open>Example data\<close>

definition example_job :: "unit Generation" where
  "example_job =
     \<lparr>id' = ''job-1'', creator_id = ''creator-1'', audio_id = ''audio-1'',
      clip_sequence = [], caption = None, caption_metadata = [], ai_reasoning = [],
      output_path = None, status = Pending, error_message = None,
      created_at = ''2024-05-01T10:00:00'', completed_at = None\<rparr>"

definition example_clips :: "ClipSequenceItem list" where
  "example_clips =
     [\<lparr>clip_id = ''clip-7'', beat_segment = ''drop'', start_ms = 0, end_ms = 3000,
       reasoning = None\<rparr>]"

definition example_done :: "unit Generation" where
  "example_done =
     example_job\<lparr>clip_sequence := example_clips, caption := Some ''Monday mood'',
                 output_path := Some ''/storage/exports/job-1.mp4'',
                 status := Completed, completed_at := Some ''2024-05-01T10:02:00''\<rparr>"

definition example_steps :: "orchestrator_step list" where
  "example_steps =
     [Begin_processing,
      Complete example_clips ''/storage/exports/job-1.mp4'' ''Monday mood''
        ''2024-05-01T10:02:00'',
      Update_caption ''Sunday mood'']"



definition example_beat :: "int \<Rightarrow> BeatType \<Rightarrow> BeatTimestamp" where
  "example_beat t k =
     \<lparr>ms = t, type' = k, intensity = 3, duration_ms = 3000, notes' = None,
      recommended_clip_type = None\<rparr>"

definition example_editor :: BeatEditor_state where
  "example_editor =
     \<lparr>isPlaying = False, currentTime = 1500.4,
      timestamps = [example_beat 0 Intro, example_beat 1450 Build],
      selectedType = Drop, selectedIntensity = 5\<rparr>"

definition no_update :: BeatTimestamp_Partial where
  "no_update =
     \<lparr>ms_p = None, type_p = None, intensity_p = None, duration_ms_p = None,
      notes_p = None, recommended_clip_type_p = None\<rparr>"

section \<open>Properties of lib/utils\<close>

text \<open>
  C6. \<open>getFlexIntensityLabel\<close> returns a label for every integer: for 1, 2, 3, 4, 5
  the labels Subtle, Low, Medium, High, Maximum, and the fallback \<open>Unknown\<close> exactly
  for the integers outside 1..5, so that the fallback is unreachable for an intensity
  in 1..5.
\<close>

theorem getFlexIntensityLabel_cases:
  "getFlexIntensityLabel 1 = ''Subtle'' \<and>
   getFlexIntensityLabel 2 = ''Low'' \<and>
   getFlexIntensityLabel 3 = ''Medium'' \<and>
   getFlexIntensityLabel 4 = ''High'' \<and>
   getFlexIntensityLabel 5 = ''Maximum'' \<and>
   (\<forall>i. (getFlexIntensityLabel i = ''Unknown'') = (i < 1 \<or> 5 < i)) \<and>
   (\<forall>i. getFlexIntensityLabel i \<in>
          {''Subtle'', ''Low'', ''Medium'', ''High'', ''Maximum'', ''Unknown''})"
  by (simp add: getFlexIntensityLabel_def) arith

lemma GenerationStatus_UNIV: "(UNIV :: GenerationStatus set) = {Pending, Processing, Completed, Failed}"
  using GenerationStatus.exhaust by auto

lemma GenerationStatus_string_range:
  "range GenerationStatus_string = {''pending'', ''processing'', ''completed'', ''failed''}"
  unfolding GenerationStatus_UNIV by simp

text \<open>
  C2. The status type has exactly the four values pending, processing, completed and
  failed. \<open>getStatusColor\<close> gives each of these four strings a colour class of its own,
  none of them the default, and gives every other string the default gray classes.
\<close>

theorem getStatusColor_statuses:
  "(UNIV :: GenerationStatus set) = {Pending, Processing, Completed, Failed} \<and>
   card (UNIV :: GenerationStatus set) = 4 \<and>
   range GenerationStatus_string = {''pending'', ''processing'', ''completed'', ''failed''} \<and>
   inj (\<lambda>s. getStatusColor (GenerationStatus_string s)) \<and>
   (\<forall>s. getStatusColor (GenerationStatus_string s) \<noteq> ''text-gray-600 bg-gray-100'') \<and>
   (\<forall>t. t \<notin> range GenerationStatus_string \<longrightarrow>
          getStatusColor t = ''text-gray-600 bg-gray-100'')"
proof -
  have C: "card (UNIV :: GenerationStatus set) = 4"
    unfolding GenerationStatus_UNIV by simp
  have I: "inj (\<lambda>s. getStatusColor (GenerationStatus_string s))"
  proof (rule injI)
    fix x y
    assume "getStatusColor (GenerationStatus_string x) = getStatusColor (GenerationStatus_string y)"
    then show "x = y" by (cases x; cases y) (simp_all add: getStatusColor_def)
  qed
  have D: "\<forall>s. getStatusColor (GenerationStatus_string s) \<noteq> ''text-gray-600 bg-gray-100''"
  proof
    fix s
    show "getStatusColor (GenerationStatus_string s) \<noteq> ''text-gray-600 bg-gray-100''"
      by (cases s) (simp_all add: getStatusColor_def)
  qed
  have O: "\<forall>t. t \<notin> range GenerationStatus_string \<longrightarrow>
             getStatusColor t = ''text-gray-600 bg-gray-100''"
    unfolding GenerationStatus_string_range by (simp add: getStatusColor_def)
  from GenerationStatus_UNIV C GenerationStatus_string_range I D O show ?thesis
    by blast
qed

theorem getStatusColor_statuses_witness:
  "''cancelled'' \<notin> range GenerationStatus_string \<and>
   getStatusColor ''cancelled'' = ''text-gray-600 bg-gray-100''"
proof -
  have n: "''cancelled'' \<notin> range GenerationStatus_string"
    unfolding GenerationStatus_string_range by simp
  from getStatusColor_statuses
  have "\<forall>t. t \<notin> range GenerationStatus_string \<longrightarrow>
          getStatusColor t = ''text-gray-600 bg-gray-100''"
    by blast
  with n show ?thesis by blast
qed

text \<open>
  C8. For \<open>maxLength \<ge> 3\<close>: a text of at most \<open>maxLength\<close> characters is returned
  unchanged; a longer one becomes its first \<open>maxLength - 3\<close> characters followed by
  three dots, of length exactly \<open>maxLength\<close>. In both cases the result is no longer
  than \<open>maxLength\<close>.
\<close>

theorem truncateText_spec:
  assumes "3 \<le> maxLength"
  shows "(int (length text) \<le> maxLength \<longrightarrow> truncateText text maxLength = text) \<and>
         (maxLength < int (length text) \<longrightarrow>
            truncateText text maxLength = take (nat (maxLength - 3)) text @ ''...'' \<and>
            int (length (truncateText text maxLength)) = maxLength) \<and>
         int (length (truncateText text maxLength)) \<le> maxLength"
  using assms by (auto simp: truncateText_def slice0_def Let_def min_def)

theorem truncateText_spec_witness:
  "(3::int) \<le> 5 \<and> truncateText ''abcdefgh'' 5 = ''ab...'' \<and>
   length (truncateText ''abcdefgh'' 5) = 5 \<and> truncateText ''abc'' 5 = ''abc''"
  using truncateText_spec [of 5 "''abcdefgh''"] truncateText_spec [of 5 "''abc''"]
  by simp

subsection \<open>Decimal numerals\<close>

















section \<open>Properties of the generate page\<close>

text \<open>
  C4. On a job snapshot, the detail query's refetch interval is 2000 ms exactly when
  the status is pending or processing; for every other status, completed and failed
  among them, it is \<open>false\<close> and polling ends.
\<close>

theorem refetchInterval_until_terminal:
  "(generationDetail_refetchInterval (Some d) = Some 2000) =
     (status d = Pending \<or> status d = Processing) \<and>
   (status d \<noteq> Pending \<and> status d \<noteq> Processing \<longrightarrow>
      generationDetail_refetchInterval (Some d) = None) \<and>
   (status d = Completed \<or> status d = Failed \<longrightarrow>
      generationDetail_refetchInterval (Some d) = None)"
  by (auto simp: generationDetail_refetchInterval_def)

theorem refetchInterval_until_terminal_witness:
  "status example_done = Completed \<and>
   generationDetail_refetchInterval (Some example_done) = None \<and>
   status example_job = Pending \<and>
   generationDetail_refetchInterval (Some example_job) = Some 2000"
  using refetchInterval_until_terminal [of example_done]
    refetchInterval_until_terminal [of example_job]
  by (simp add: example_done_def example_job_def)

text \<open>
  C5. \<open>regenerateCaption\<close> posts the body \<open>{keep_clips: keepClips}\<close>, with \<open>true\<close>
  when the argument is omitted. The page's mutation calls it with the job id alone,
  so the request of the regenerate button carries \<open>keep_clips = true\<close>, for the job
  the card shows. What the server does on \<open>keep_clips = true\<close> is outside the front
  end; the statement is about the request.
\<close>

theorem regenerateCaption_keep_clips:
  "data (regenerateCaption i (Some keepClips)) = [(''keep_clips'', keepClips)] \<and>
   data (regenerateCaption i None) = [(''keep_clips'', True)] \<and>
   regenerateCaptionMutation_mutationFn i = regenerateCaption i None \<and>
   data (regenerateCaptionMutation_mutationFn i) = [(''keep_clips'', True)] \<and>
   data (regenerateButton_onClick d) = [(''keep_clips'', True)] \<and>
   url (regenerateButton_onClick d) = ''/generate/'' @ id' d @ ''/regenerate-caption''"
  by (simp add: regenerateCaption_def regenerateCaptionMutation_mutationFn_def
      regenerateButton_onClick_def)




section \<open>Properties of the beat editor\<close>

lemma set_filter_enumerate: "set (map snd (filter P (enumerate n xs))) \<subseteq> set xs"
  by (induction xs arbitrary: n) auto

lemma sorted_filter_enumerate:
  "sorted (map f xs) \<Longrightarrow> sorted (map f (map snd (filter P (enumerate n xs))))"
proof (induction xs arbitrary: n)
  case Nil
  then show ?case
    by simp
next
  case (Cons x xs)
  have sub: "set (map snd (filter P (enumerate (Suc n) xs))) \<subseteq> set xs"
    by (rule set_filter_enumerate)
  from Cons.prems have rest: "sorted (map f xs)" and least: "\<forall>y\<in>set xs. f x \<le> f y"
    by simp_all
  from Cons.IH [OF rest]
  have ih: "sorted (map f (map snd (filter P (enumerate (Suc n) xs))))" .
  show ?case
  proof (cases "P (n, x)")
    case True
    then show ?thesis
      using ih least sub by auto
  next
    case False
    then show ?thesis
      using ih by simp
  qed
qed

lemma removeTimestamp_sorted:
  "sorted_by_ms prev \<Longrightarrow> sorted_by_ms (removeTimestamp index prev)"
  unfolding sorted_by_ms_def removeTimestamp_def by (rule sorted_filter_enumerate)

lemma ms_spread: "ms_p updates = None \<Longrightarrow> ms (spread ts updates) = ms ts"
  by (simp add: spread_def)

lemma map_ms_update:
  "ms_p updates = None \<Longrightarrow>
   map ms (map (\<lambda>(i, ts). if int i = index then spread ts updates else ts)
     (enumerate n prev)) = map ms prev"
  by (induction prev arbitrary: n) (simp_all add: ms_spread)

lemma updateTimestamp_ms:
  "ms_p updates = None \<Longrightarrow> map ms (updateTimestamp index updates prev) = map ms prev"
  unfolding updateTimestamp_def by (rule map_ms_update)

lemma addTimestamp_sorted:
  "sorted_by_ms (timestamps st) \<Longrightarrow> sorted_by_ms (timestamps (addTimestamp st))"
  by (simp add: addTimestamp_def Let_def sorted_by_ms_def)

lemma find_None_set: "(find P xs = None) = (\<forall>x\<in>set xs. \<not> P x)"
  by (induction xs) auto

text \<open>
  C3, as the code has it. A timestamp list in ascending \<open>ms\<close> order stays in
  ascending \<open>ms\<close> order under \<open>addTimestamp\<close>, under \<open>removeTimestamp\<close> at any index,
  and under \<open>updateTimestamp\<close> at any index with an update that has no \<open>ms\<close> key, as
  the editor's two updates (of \<open>notes\<close>, of \<open>duration_ms\<close>) are.
\<close>

theorem timestamps_stay_sorted:
  "(sorted_by_ms (timestamps st) \<longrightarrow> sorted_by_ms (timestamps (addTimestamp st))) \<and>
   (sorted_by_ms prev \<longrightarrow> sorted_by_ms (removeTimestamp index prev)) \<and>
   (sorted_by_ms prev \<and> ms_p updates = None \<longrightarrow>
      sorted_by_ms (updateTimestamp index updates prev))"
  by (simp add: addTimestamp_sorted removeTimestamp_sorted)
     (simp add: sorted_by_ms_def updateTimestamp_ms)

theorem timestamps_stay_sorted_witness:
  "sorted_by_ms (timestamps example_editor) \<and>
   sorted_by_ms (timestamps (addTimestamp (example_editor\<lparr>currentTime := 700\<rparr>))) \<and>
   sorted_by_ms (removeTimestamp 0 (timestamps example_editor)) \<and>
   ms_p (no_update\<lparr>notes_p := Some (Some ''hit'')\<rparr>) = None \<and>
   sorted_by_ms
     (updateTimestamp 1 (no_update\<lparr>notes_p := Some (Some ''hit'')\<rparr>)
        (timestamps example_editor))"
proof -
  have s: "sorted_by_ms (timestamps example_editor)"
    by (simp add: sorted_by_ms_def example_editor_def example_beat_def)
  then have s2: "sorted_by_ms (timestamps (example_editor\<lparr>currentTime := 700\<rparr>))"
    by simp
  have n: "ms_p (no_update\<lparr>notes_p := Some (Some ''hit'')\<rparr>) = None"
    by (simp add: no_update_def)
  note editor = timestamps_stay_sorted
    [where st = "example_editor\<lparr>currentTime := 700\<rparr>" and prev = "timestamps example_editor"
       and updates = "no_update\<lparr>notes_p := Some (Some ''hit'')\<rparr>"]
  from s s2 n editor [where index = 0] editor [where index = 1] show ?thesis
    by blast
qed

text \<open>
  C3, as stated, fails: \<open>updateTimestamp\<close> merges any partial update, and one that
  carries \<open>ms\<close> can move a timestamp past its neighbour; the list is not sorted again.
\<close>

theorem updateTimestamp_unsorted_counterexample:
  "sorted_by_ms [example_beat 0 Intro, example_beat 1450 Build] \<and>
   \<not> sorted_by_ms
       (updateTimestamp 0 (no_update\<lparr>ms_p := Some 5000\<rparr>)
          [example_beat 0 Intro, example_beat 1450 Build])"
  by (simp add: sorted_by_ms_def updateTimestamp_def spread_def example_beat_def no_update_def)

text \<open>
  C10. When a recorded timestamp lies within 100 ms of the rounded player position,
  \<open>addTimestamp\<close> changes nothing. Otherwise the new list holds the old timestamps,
  each as it was, and one more: at the rounded position, with the selected type and
  intensity, \<open>duration_ms\<close> 3000, empty notes and clip type lifestyle; the rest of the
  editor's state is as before.
\<close>

theorem addTimestamp_window:
  "((\<exists>t\<in>set (timestamps st). \<bar>ms t - Math_round (currentTime st)\<bar> < 100) \<longrightarrow>
      addTimestamp st = st) \<and>
   (\<not> (\<exists>t\<in>set (timestamps st). \<bar>ms t - Math_round (currentTime st)\<bar> < 100) \<longrightarrow>
      mset (timestamps (addTimestamp st)) =
        mset (timestamps st) +
        {#\<lparr>ms = Math_round (currentTime st), type' = selectedType st,
           intensity = selectedIntensity st, duration_ms = 3000, notes' = Some [],
           recommended_clip_type = Some ''lifestyle''\<rparr>#} \<and>
      length (timestamps (addTimestamp st)) = Suc (length (timestamps st)) \<and>
      addTimestamp st = st\<lparr>timestamps := timestamps (addTimestamp st)\<rparr>)"
proof -
  let ?W = "\<exists>t\<in>set (timestamps st). \<bar>ms t - Math_round (currentTime st)\<bar> < 100"
  let ?new = "\<lparr>ms = Math_round (currentTime st), type' = selectedType st,
      intensity = selectedIntensity st, duration_ms = 3000, notes' = Some [],
      recommended_clip_type = Some ''lifestyle''\<rparr>"
  have fn: "(find (\<lambda>t. \<bar>ms t - Math_round (currentTime st)\<bar> < 100) (timestamps st) = None)
      = (\<not> ?W)"
    by (simp add: find_None_set)
  have a: "?W \<longrightarrow> addTimestamp st = st"
    using fn by (simp add: addTimestamp_def Let_def)
  have b: "\<not> ?W \<longrightarrow>
      mset (timestamps (addTimestamp st)) = mset (timestamps st) + {#?new#} \<and>
      length (timestamps (addTimestamp st)) = Suc (length (timestamps st)) \<and>
      addTimestamp st = st\<lparr>timestamps := timestamps (addTimestamp st)\<rparr>"
  proof
    assume "\<not> ?W"
    with fn have none:
      "find (\<lambda>t. \<bar>ms t - Math_round (currentTime st)\<bar> < 100) (timestamps st) = None"
      by blast
    have e: "addTimestamp st = st\<lparr>timestamps := sort_key ms (timestamps st @ [?new])\<rparr>"
      by (simp add: addTimestamp_def Let_def none)
    show "mset (timestamps (addTimestamp st)) = mset (timestamps st) + {#?new#} \<and>
      length (timestamps (addTimestamp st)) = Suc (length (timestamps st)) \<and>
      addTimestamp st = st\<lparr>timestamps := timestamps (addTimestamp st)\<rparr>"
      by (simp add: e)
  qed
  from a b show ?thesis
    by blast
qed

theorem addTimestamp_window_witness:
  "(\<exists>t\<in>set (timestamps example_editor).
      \<bar>ms t - Math_round (currentTime example_editor)\<bar> < 100) \<and>
   addTimestamp example_editor = example_editor \<and>
   \<not> (\<exists>t\<in>set (timestamps (example_editor\<lparr>currentTime := 700\<rparr>)).
      \<bar>ms t - Math_round (currentTime (example_editor\<lparr>currentTime := 700\<rparr>))\<bar> < 100) \<and>
   timestamps (addTimestamp (example_editor\<lparr>currentTime := 700\<rparr>)) =
     [example_beat 0 Intro,
      \<lparr>ms = 700, type' = Drop, intensity = 5, duration_ms = 3000, notes' = Some [],
       recommended_clip_type = Some ''lifestyle''\<rparr>,
      example_beat 1450 Build] \<and>
   length (timestamps (addTimestamp (example_editor\<lparr>currentTime := 700\<rparr>))) = 3"
proof -
  let ?st = "example_editor\<lparr>currentTime := 700\<rparr>"
  have r: "Math_round (currentTime example_editor) = 1500"
    unfolding Math_round_def example_editor_def by simp
  have r7: "Math_round 700 = 700"
    unfolding Math_round_def by simp
  then have r2: "Math_round (currentTime ?st) = 700"
    by simp
  have near: "\<exists>t\<in>set (timestamps example_editor).
      \<bar>ms t - Math_round (currentTime example_editor)\<bar> < 100"
    unfolding r by (simp add: example_editor_def example_beat_def)
  have same: "addTimestamp example_editor = example_editor"
    using near addTimestamp_window [of example_editor] by blast
  have far: "\<not> (\<exists>t\<in>set (timestamps ?st). \<bar>ms t - Math_round (currentTime ?st)\<bar> < 100)"
    unfolding r2 by (simp add: example_editor_def example_beat_def)
  have len: "length (timestamps (addTimestamp ?st)) = Suc (length (timestamps ?st))"
    using far addTimestamp_window [of ?st] by blast
  have added: "timestamps (addTimestamp ?st) =
     [example_beat 0 Intro,
      \<lparr>ms = 700, type' = Drop, intensity = 5, duration_ms = 3000, notes' = Some [],
       recommended_clip_type = Some ''lifestyle''\<rparr>,
      example_beat 1450 Build]"
    by (simp add: addTimestamp_def Let_def r7 example_editor_def example_beat_def)
  from len have len3: "length (timestamps (addTimestamp ?st)) = 3"
    by (simp add: example_editor_def)
  from near same far added len3 show ?thesis
    by blast
qed


section \<open>Properties of the Generation Job state machine\<close>

lemma orchestrate_terminal:
  "orchestrate j s = Some k \<Longrightarrow> status j = Completed \<or> status j = Failed \<Longrightarrow>
   status k = status j"
  by (cases s) (auto split: if_splits)

lemma job_history_terminal:
  "job_history j ss = Some js \<Longrightarrow> status j = Completed \<or> status j = Failed \<Longrightarrow>
   \<forall>k\<in>set js. status k = status j"
proof (induction ss arbitrary: j js)
  case Nil
  then show ?case
    by auto
next
  case (Cons s ss)
  from Cons.prems(1) obtain k ks where
    step: "orchestrate j s = Some k" and rest: "job_history k ss = Some ks" and js: "js = j # ks"
    by (auto split: option.splits)
  from orchestrate_terminal [OF step Cons.prems(2)] have same: "status k = status j" .
  with Cons.prems(2) have "status k = Completed \<or> status k = Failed"
    by simp
  from Cons.IH [OF rest this] same js show ?case
    by simp
qed

text \<open>
  C1. In the sequence of states a job passes through, once the status is completed
  or failed it is that value at every later state: no step leads from a terminal
  status back to pending or processing, or from one terminal status to the other.
\<close>

theorem status_terminal_forever:
  "job_history j ss = Some js \<Longrightarrow> a \<le> b \<Longrightarrow> b < length js \<Longrightarrow>
   status (js ! a) = Completed \<or> status (js ! a) = Failed \<Longrightarrow>
   status (js ! b) = status (js ! a)"
proof (induction ss arbitrary: j js a b)
  case Nil
  then show ?case
    by auto
next
  case (Cons s ss)
  from Cons.prems(1) obtain k ks where
    step: "orchestrate j s = Some k" and rest: "job_history k ss = Some ks" and js: "js = j # ks"
    by (auto split: option.splits)
  show ?case
  proof (cases a)
    case 0
    with Cons.prems(4) js have fin: "status j = Completed \<or> status j = Failed"
      by simp
    from job_history_terminal [OF Cons.prems(1) fin] Cons.prems(3)
    have "status (js ! b) = status j"
      by simp
    with 0 js show ?thesis
      by simp
  next
    case (Suc a')
    with Cons.prems(2) obtain b' where b: "b = Suc b'" and le: "a' \<le> b'"
      by (cases b) auto
    from Cons.prems(3) b js have lt: "b' < length ks"
      by simp
    from Cons.prems(4) Suc js have fin: "status (ks ! a') = Completed \<or> status (ks ! a') = Failed"
      by simp
    from Cons.IH [OF rest le lt fin] Suc b js show ?thesis
      by simp
  qed
qed

theorem status_terminal_forever_witness:
  "\<exists>js. job_history example_job example_steps = Some js \<and> (2::nat) \<le> 3 \<and> 3 < length js \<and>
     status (js ! 0) = Pending \<and> status (js ! 1) = Processing \<and>
     status (js ! 2) = Completed \<and> status (js ! 3) = Completed \<and>
     caption (js ! 2) \<noteq> caption (js ! 3)"
proof -
  define js where "js =
    [example_job, example_job\<lparr>status := Processing\<rparr>, example_done,
     example_done\<lparr>caption := Some ''Sunday mood''\<rparr>]"
  have h: "job_history example_job example_steps = Some js"
    by (simp add: js_def example_steps_def example_done_def example_job_def)
  have l: "3 < length js"
    by (simp add: js_def)
  have t: "status (js ! 2) = Completed \<or> status (js ! 2) = Failed"
    by (simp add: js_def example_done_def)
  have "status (js ! 3) = status (js ! 2)"
    using status_terminal_forever [OF h _ l t] by simp
  moreover have "status (js ! 0) = Pending" "status (js ! 1) = Processing"
    "status (js ! 2) = Completed" "caption (js ! 2) \<noteq> caption (js ! 3)"
    by (simp_all add: js_def example_done_def example_job_def)
  ultimately show ?thesis
    using h l by auto
qed

text \<open>
  The Orchestrator rejects every step that would restart a finished job, and only a
  caption update is accepted on a completed one.
\<close>

lemma orchestrate_terminal_steps:
  "status j = Failed \<Longrightarrow> orchestrate j s = None"
  "status j = Completed \<Longrightarrow> orchestrate j s \<noteq> None \<Longrightarrow> \<exists>c. s = Update_caption c"
  by (cases s; simp)+

end
